theory Spec2Isabelle
  imports Complex_Main
begin

section \<open>Values, errors and observable effects\<close>

text \<open>
  The two functions of \<^verbatim>\<open>spacecraft_toos.py\<close> take Python floats and return a
  float or \<^verbatim>\<open>None\<close>. The arguments are builtin floats, as the docstrings say
  (numpy scalars divide and exponentiate differently). Floats are modelled by the real
  numbers and every operation is the exact one: rounding, infinities and NaN are
  outside the model, and so is the binary64 range, which the section on the range
  treats separately. What stays in exact arithmetic is modelled: a division by zero raises
  \<^verbatim>\<open>ZeroDivisionError\<close>, and a negative float raised to a non-integer power
  is a complex number.
\<close>

datatype py_error = ZeroDivisionError | OverflowError | TypeError

datatype py_value = PyNone | PyFloat real | PyComplex complex

text \<open>
  What a call does besides returning: the lines it prints and the divisions it
  performs, in order.
\<close>

datatype event = Printed string | Divided real real

type_synonym 'a exec = "event list \<times> (py_error + 'a)"

definition ret :: "'a \<Rightarrow> 'a exec" where
  "ret x = ([], Inr x)"

definition raise :: "py_error \<Rightarrow> 'a exec" where
  "raise e = ([], Inl e)"

text \<open>Sequencing: an exception ends the run, the events so far are kept.\<close>

definition and_then :: "'a exec \<Rightarrow> ('a \<Rightarrow> 'b exec) \<Rightarrow> 'b exec" where
  "and_then m f =
     (case m of
        (t, Inl e) \<Rightarrow> (t, Inl e)
      | (t, Inr x) \<Rightarrow> (case f x of (t', r) \<Rightarrow> (t @ t', r)))"

definition py_print :: "string \<Rightarrow> unit exec" where
  "py_print s = ([Printed s], Inr ())"

text \<open>\<^verbatim>\<open>a / b\<close> on floats.\<close>

definition py_truediv :: "real \<Rightarrow> real \<Rightarrow> real exec" where
  "py_truediv a b =
     ([Divided a b], if b = 0 then Inl ZeroDivisionError else Inr (a / b))"

text \<open>
  \<^verbatim>\<open>x ** y\<close> on floats: \<^verbatim>\<open>x ** 0\<close> is 1, zero to a negative power raises,
  a negative base with a non-integer exponent gives the complex number of modulus
  \<open>\<bar>x\<bar> ** y\<close> and argument \<open>pi * y\<close>, a negative base with an integer exponent
  is the integer power.
\<close>

definition py_pow :: "real \<Rightarrow> real \<Rightarrow> py_value exec" where
  "py_pow x y =
     (if y = 0 then ret (PyFloat 1)
      else if x = 0 then (if y < 0 then raise ZeroDivisionError else ret (PyFloat 0))
      else if x < 0 \<and> y \<notin> \<int> then ret (PyComplex (rcis (\<bar>x\<bar> powr y) (pi * y)))
      else if x < 0 then ret (PyFloat (x powi \<lfloor>y\<rfloor>))
      else ret (PyFloat (x powr y)))"

text \<open>\<^verbatim>\<open>v * k\<close> for a float \<open>k\<close>.\<close>

definition py_mul :: "py_value \<Rightarrow> real \<Rightarrow> py_value exec" where
  "py_mul v k =
     (case v of
        PyFloat x \<Rightarrow> ret (PyFloat (x * k))
      | PyComplex c \<Rightarrow> ret (PyComplex (c * complex_of_real k))
      | PyNone \<Rightarrow> raise TypeError)"

text \<open>\<^verbatim>\<open>np.deg2rad\<close>: multiplication by the constant \<open>pi / 180\<close>.\<close>

definition deg2rad :: "real \<Rightarrow> real" where
  "deg2rad x = x * (pi / 180)"

section \<open>The two functions\<close>

text \<open>
  In both functions \<^verbatim>\<open>sun_distance**2\<close> is written as the exact square
  \<open>sun_distance ^ 2\<close>, which is what \<open>py_pow\<close> gives under the guard
  \<open>sun_distance \<noteq> 0\<close> (lemma \<open>py_pow_two\<close> below). The exact square of a non-zero
  number is never zero and never too large; the float square can be both
  (\<open>float_square\<close> below), so these definitions describe the program only where the
  square is in range (lemma \<open>float_square_in_range\<close>), and the same holds for the
  products and quotients that follow.
  \<^verbatim>\<open>STEFAN_BOLTZMANN\<close> is assigned before the guard, by a product and a power.
\<close>

definition warning_message :: string where
  "warning_message =
     ''[WARNING - calc_solar_array_power_generation] - Input value sun_distance cannot be 0.''"

definition calc_solar_array_power_generation ::
  "real \<Rightarrow> real \<Rightarrow> real \<Rightarrow> real \<Rightarrow> real \<Rightarrow> py_value exec" where
  "calc_solar_array_power_generation sun_distance effective_area efficiency
       incidence_angle solar_constant =
     (if sun_distance \<noteq> 0 then
        and_then (py_truediv 1 (sun_distance ^ 2)) (\<lambda>sun_distance_ratio.
        ret (PyFloat (sun_distance_ratio * solar_constant * effective_area * efficiency
                        * cos (deg2rad incidence_angle))))
      else
        and_then (py_print warning_message) (\<lambda>_.
        ret PyNone))"

definition STEFAN_BOLTZMANN :: real where
  "STEFAN_BOLTZMANN = 5.670374419 * 10 powr (- 8)"

definition calc_panel_temperature :: "real \<Rightarrow> real \<Rightarrow> real \<Rightarrow> real \<Rightarrow> py_value exec" where
  "calc_panel_temperature sun_distance absorptivity emissivity solar_constant =
     (if sun_distance \<noteq> 0 then
        and_then (py_truediv 1 (sun_distance ^ 2)) (\<lambda>r.
        let solar_flux = solar_constant * r in
        and_then (py_truediv (absorptivity * solar_flux) (2 * emissivity * STEFAN_BOLTZMANN))
          (\<lambda>q.
        and_then (py_pow q 0.25) (\<lambda>panel_temperature.
        py_mul panel_temperature 273.15)))
      else
        ret PyNone)"

text \<open>The defaults of the keyword parameters.\<close>

definition default_efficiency :: real where "default_efficiency = 0.28"
definition default_incidence_angle :: real where "default_incidence_angle = 0"
definition default_absorptivity :: real where "default_absorptivity = 0.85"
definition default_emissivity :: real where "default_emissivity = 0.72"
definition default_solar_constant :: real where "default_solar_constant = 1366"

section \<open>Reading a run\<close>

definition events :: "'a exec \<Rightarrow> event list" where
  "events m = fst m"

definition outcome :: "'a exec \<Rightarrow> py_error + 'a" where
  "outcome m = snd m"

fun is_division :: "event \<Rightarrow> bool" where
  "is_division (Divided a b) = True"
| "is_division (Printed s) = False"

definition divisions :: "'a exec \<Rightarrow> event list" where
  "divisions m = filter is_division (events m)"

fun is_number :: "py_value \<Rightarrow> bool" where
  "is_number (PyFloat x) = True"
| "is_number (PyComplex c) = True"
| "is_number PyNone = False"

definition returns_number :: "py_value exec \<Rightarrow> bool" where
  "returns_number m = (case outcome m of Inr v \<Rightarrow> is_number v | Inl e \<Rightarrow> False)"



section \<open>The binary64 range\<close>

text \<open>
  The definitions of the two functions compute with exact reals. The program computes
  with binary64 floats, and agrees with them up to rounding as long as no intermediate
  result leaves the range of the format. \<open>in_normal_range\<close> is that condition on one
  exact result: it is zero, or its magnitude lies between the smallest normal float
  \<open>1 / 2 ^ 1022\<close> and \<open>2 ^ 1023\<close>, so that rounding changes it by a relative error
  of at most \<open>1 / 2 ^ 53\<close> and keeps it finite and non-zero.
\<close>

definition in_normal_range :: "real \<Rightarrow> bool" where
  "in_normal_range x \<longleftrightarrow> x = 0 \<or> (1 / 2 ^ 1022 \<le> \<bar>x\<bar> \<and> \<bar>x\<bar> \<le> 2 ^ 1023)"

text \<open>
  Outside the range the program differs. \<^verbatim>\<open>x ** 2\<close> on a float raises
  \<^verbatim>\<open>OverflowError\<close> when the square rounds beyond the largest float, and is
  \<^verbatim>\<open>0.0\<close> when the square is at most half the smallest subnormal float
  \<open>1 / 2 ^ 1074\<close>; between the two it is the square, up to rounding.
\<close>

definition float_square :: "real \<Rightarrow> py_error + real" where
  "float_square x =
     (if (2 - 1 / 2 ^ 53) * 2 ^ 1023 \<le> x ^ 2 then Inl OverflowError
      else if x ^ 2 \<le> 1 / 2 ^ 1075 then Inr 0
      else Inr (x ^ 2))"

text \<open>
  The intermediate results of \<open>calc_panel_temperature\<close> on the path
  \<open>sun_distance \<noteq> 0\<close>, in the order of lines 46 and 49: the square, its inverse, the
  flux, the numerator, the two products of the denominator and the quotient.
\<close>

definition temperature_in_range :: "real \<Rightarrow> real \<Rightarrow> real \<Rightarrow> real \<Rightarrow> bool" where
  "temperature_in_range sun_distance absorptivity emissivity solar_constant \<longleftrightarrow>
     in_normal_range (sun_distance ^ 2)
     \<and> in_normal_range (1 / sun_distance ^ 2)
     \<and> in_normal_range (solar_constant * (1 / sun_distance ^ 2))
     \<and> in_normal_range (absorptivity * (solar_constant * (1 / sun_distance ^ 2)))
     \<and> in_normal_range (2 * emissivity)
     \<and> in_normal_range (2 * emissivity * STEFAN_BOLTZMANN)
     \<and> in_normal_range (absorptivity * (solar_constant * (1 / sun_distance ^ 2))
          / (2 * emissivity * STEFAN_BOLTZMANN))"

section \<open>Auxiliary facts\<close>

lemma quarter_not_int: "(0.25::real) \<notin> \<int>"
proof
  assume "(0.25::real) \<in> \<int>"
  then obtain k :: int where "(0.25::real) = of_int k"
    by (auto elim: Ints_cases)
  then have "(1::real) = of_int (4 * k)"
    by simp
  then have "(1::int) = 4 * k"
    by (metis of_int_1 of_int_eq_iff)
  then show False
    by presburger
qed

lemma py_pow_two: "x \<noteq> 0 \<Longrightarrow> py_pow x 2 = ret (PyFloat (x ^ 2))"
  by (simp add: py_pow_def)

lemma STEFAN_BOLTZMANN_value: "STEFAN_BOLTZMANN = 5.670374419 / 10 ^ 8"
  by (simp add: STEFAN_BOLTZMANN_def powr_minus divide_simps)

lemma STEFAN_BOLTZMANN_pos: "0 < STEFAN_BOLTZMANN"
  by (simp add: STEFAN_BOLTZMANN_def)

lemma and_then_truediv:
  "b \<noteq> 0 \<Longrightarrow>
   and_then (py_truediv a b) f = (Divided a b # fst (f (a / b)), snd (f (a / b)))"
  by (simp add: and_then_def py_truediv_def split: prod.splits)

lemma and_then_truediv_zero:
  "and_then (py_truediv a 0) f = ([Divided a 0], Inl ZeroDivisionError)"
  by (simp add: and_then_def py_truediv_def)

lemma kelvin_to_celsius_nonneg:
  "0 \<le> q \<Longrightarrow>
   and_then (py_pow q 0.25) (\<lambda>t. py_mul t 273.15) =
     ([], Inr (PyFloat (q powr 0.25 * 273.15)))"
  by (simp add: and_then_def py_pow_def py_mul_def ret_def)

lemma kelvin_to_celsius_neg:
  "q < 0 \<Longrightarrow>
   and_then (py_pow q 0.25) (\<lambda>t. py_mul t 273.15) =
     ([], Inr (PyComplex (rcis (\<bar>q\<bar> powr 0.25) (pi * 0.25) * complex_of_real 273.15)))"
  using quarter_not_int by (simp add: and_then_def py_pow_def py_mul_def ret_def)

lemma power_at_nonzero:
  "d \<noteq> 0 \<Longrightarrow>
   calc_solar_array_power_generation d A eff ia S =
     ([Divided 1 (d ^ 2)], Inr (PyFloat (1 / d ^ 2 * S * A * eff * cos (deg2rad ia))))"
  by (simp add: calc_solar_array_power_generation_def and_then_truediv ret_def)

lemma power_at_zero:
  "calc_solar_array_power_generation 0 A eff ia S = ([Printed warning_message], Inr PyNone)"
  by (simp add: calc_solar_array_power_generation_def and_then_def py_print_def ret_def)

lemma temperature_at_zero: "calc_panel_temperature 0 a e S = ([], Inr PyNone)"
  by (simp add: calc_panel_temperature_def ret_def)

lemma temperature_emissivity_zero:
  "d \<noteq> 0 \<Longrightarrow>
   calc_panel_temperature d a 0 S =
     ([Divided 1 (d ^ 2), Divided (a * (S * (1 / d ^ 2))) 0], Inl ZeroDivisionError)"
  by (simp add: calc_panel_temperature_def and_then_truediv and_then_truediv_zero)

lemma temperature_at_nonzero:
  assumes "d \<noteq> 0" and "e \<noteq> 0"
  shows "calc_panel_temperature d a e S =
     (Divided 1 (d ^ 2) # Divided (a * (S * (1 / d ^ 2))) (2 * e * STEFAN_BOLTZMANN)
        # fst (and_then (py_pow (a * (S * (1 / d ^ 2)) / (2 * e * STEFAN_BOLTZMANN)) 0.25)
                 (\<lambda>t. py_mul t 273.15)),
      snd (and_then (py_pow (a * (S * (1 / d ^ 2)) / (2 * e * STEFAN_BOLTZMANN)) 0.25)
                 (\<lambda>t. py_mul t 273.15)))"
proof -
  have d2: "d ^ 2 \<noteq> 0"
    using assms(1) by simp
  have den: "2 * e * STEFAN_BOLTZMANN \<noteq> 0"
    using assms(2) STEFAN_BOLTZMANN_pos by simp
  show ?thesis
    unfolding calc_panel_temperature_def Let_def
    by (simp only: assms(1) not_False_eq_True if_True and_then_truediv [OF d2]
        and_then_truediv [OF den] fst_conv snd_conv)
qed

text \<open>The quotient under the fourth root, as the code computes it and as the formula
  \<open>(absorptivity * flux) / (2 * emissivity * sigma)\<close> writes it.\<close>

lemma quotient_eq:
  "a * (S * (1 / d ^ 2)) / (2 * e * STEFAN_BOLTZMANN) =
   (a * (S / d ^ 2)) / (2 * e * (5.670374419 / 10 ^ 8))"
  by (simp add: STEFAN_BOLTZMANN_value)

lemma outcome_temperature_nonneg:
  assumes "d \<noteq> 0" and "e \<noteq> 0"
    and "0 \<le> (a * (S / d ^ 2)) / (2 * e * (5.670374419 / 10 ^ 8))"
  shows "outcome (calc_panel_temperature d a e S) =
     Inr (PyFloat (((a * (S / d ^ 2)) / (2 * e * (5.670374419 / 10 ^ 8))) powr 0.25 * 273.15))"
proof -
  have "0 \<le> a * (S * (1 / d ^ 2)) / (2 * e * STEFAN_BOLTZMANN)"
    using assms(3) by (simp only: quotient_eq)
  then show ?thesis
    unfolding outcome_def temperature_at_nonzero [OF assms(1,2)] snd_conv
    by (simp only: kelvin_to_celsius_nonneg snd_conv quotient_eq)
qed

lemma outcome_temperature_neg:
  assumes "d \<noteq> 0" and "e \<noteq> 0"
    and "(a * (S / d ^ 2)) / (2 * e * (5.670374419 / 10 ^ 8)) < 0"
  shows "outcome (calc_panel_temperature d a e S) =
     Inr (PyComplex (rcis (\<bar>(a * (S / d ^ 2)) / (2 * e * (5.670374419 / 10 ^ 8))\<bar> powr 0.25)
                       (pi * 0.25) * complex_of_real 273.15))"
proof -
  have "a * (S * (1 / d ^ 2)) / (2 * e * STEFAN_BOLTZMANN) < 0"
    using assms(3) by (simp only: quotient_eq)
  then show ?thesis
    unfolding outcome_def temperature_at_nonzero [OF assms(1,2)] snd_conv
    by (simp only: kelvin_to_celsius_neg snd_conv quotient_eq)
qed


lemma temperature_even: "calc_panel_temperature (- d) a e S = calc_panel_temperature d a e S"
  by (simp add: calc_panel_temperature_def)

lemma power_even:
  "calc_solar_array_power_generation (- d) A eff ia S =
   calc_solar_array_power_generation d A eff ia S"
  by (simp add: calc_solar_array_power_generation_def)

lemma times_not_minus:
  fixes x :: real
  assumes "0 \<le> x"
  shows "x * 273.15 \<noteq> x - 273.15"
proof -
  have "x - 273.15 < x * 1"
    by simp
  also have "x * 1 \<le> x * 273.15"
    using assms by (intro mult_left_mono) simp_all
  finally show ?thesis
    by simp
qed

lemma float_square_in_range:
  assumes "x \<noteq> 0" and "in_normal_range (x ^ 2)"
  shows "float_square x = Inr (x ^ 2)"
proof -
  have lo: "1 / 2 ^ 1022 \<le> x ^ 2" and hi: "x ^ 2 \<le> 2 ^ 1023"
    using assms by (simp_all add: in_normal_range_def)
  have "(1::real) / 2 ^ 1075 < 1 / 2 ^ 1022"
    by simp
  with lo have a: "\<not> x ^ 2 \<le> 1 / 2 ^ 1075"
    by linarith
  have "(2::real) ^ 1023 < (2 - 1 / 2 ^ 53) * 2 ^ 1023"
    by simp
  with hi have b: "\<not> (2 - 1 / 2 ^ 53) * 2 ^ 1023 \<le> x ^ 2"
    by linarith
  show ?thesis
    unfolding float_square_def using a b by (simp only: if_False)
qed

text \<open>
  The guard \<open>sun_distance \<noteq> 0\<close> of lines 19 and 45 does not see the range: at
  \<open>sun_distance = 1e-200\<close> it passes, the float square is \<^verbatim>\<open>0.0\<close> and the division
  of lines 20 and 46 raises; at \<open>sun_distance = 1e200\<close> the square itself raises.
\<close>

lemma guard_misses_underflow:
  "(1 / 10 ^ 200 :: real) \<noteq> 0 \<and> float_square (1 / 10 ^ 200) = Inr 0
   \<and> outcome (py_truediv 1 0) = Inl ZeroDivisionError"
  by (simp add: float_square_def outcome_def py_truediv_def power_divide)

lemma guard_misses_overflow:
  "(10 ^ 200 :: real) \<noteq> 0 \<and> float_square (10 ^ 200) = Inl OverflowError"
  by (simp add: float_square_def)

section \<open>The zero-distance guard\<close>

text \<open>
  C1 (as amended). With \<open>sun_distance = 0\<close> both functions return \<^verbatim>\<open>None\<close> and
  perform no division. With \<open>sun_distance \<noteq> 0\<close> and its square in the normal range,
  \<open>calc_solar_array_power_generation\<close> returns a number, and
  \<open>calc_panel_temperature\<close> returns a number when \<open>emissivity \<noteq> 0\<close> and the
  divisor \<open>2 * emissivity * STEFAN_BOLTZMANN\<close> is in the normal range; with
  \<open>emissivity = 0\<close> it raises \<^verbatim>\<open>ZeroDivisionError\<close>. Distances whose square
  leaves the range are not covered.
\<close>

theorem C1_none_at_zero_number_in_range:
  "outcome (calc_solar_array_power_generation 0 A eff ia S) = Inr PyNone
   \<and> divisions (calc_solar_array_power_generation 0 A eff ia S) = []
   \<and> outcome (calc_panel_temperature 0 a e S) = Inr PyNone
   \<and> divisions (calc_panel_temperature 0 a e S) = []
   \<and> (d \<noteq> 0 \<and> in_normal_range (d ^ 2) \<longrightarrow>
        returns_number (calc_solar_array_power_generation d A eff ia S))
   \<and> (d \<noteq> 0 \<and> in_normal_range (d ^ 2)
        \<and> e \<noteq> 0 \<and> in_normal_range (2 * e * STEFAN_BOLTZMANN) \<longrightarrow>
        returns_number (calc_panel_temperature d a e S))
   \<and> (d \<noteq> 0 \<and> in_normal_range (d ^ 2) \<longrightarrow>
        outcome (calc_panel_temperature d a 0 S) = Inl ZeroDivisionError)"
proof -
  have zero_power: "outcome (calc_solar_array_power_generation 0 A eff ia S) = Inr PyNone"
    by (simp add: outcome_def power_at_zero)
  have zero_power_div: "divisions (calc_solar_array_power_generation 0 A eff ia S) = []"
    by (simp add: divisions_def events_def power_at_zero)
  have zero_temp: "outcome (calc_panel_temperature 0 a e S) = Inr PyNone"
    by (simp add: outcome_def temperature_at_zero)
  have zero_temp_div: "divisions (calc_panel_temperature 0 a e S) = []"
    by (simp add: divisions_def events_def temperature_at_zero)
  have power: "returns_number (calc_solar_array_power_generation d A eff ia S)" if "d \<noteq> 0"
    using that by (simp add: returns_number_def outcome_def power_at_nonzero)
  have temp: "returns_number (calc_panel_temperature d a e S)" if "d \<noteq> 0" and "e \<noteq> 0"
  proof (cases "0 \<le> (a * (S / d ^ 2)) / (2 * e * (5.670374419 / 10 ^ 8))")
    case True
    show ?thesis
      unfolding returns_number_def outcome_temperature_nonneg [OF that True] by simp
  next
    case False
    then have "(a * (S / d ^ 2)) / (2 * e * (5.670374419 / 10 ^ 8)) < 0"
      by simp
    then show ?thesis
      unfolding returns_number_def by (simp only: outcome_temperature_neg [OF that]) simp
  qed
  have raises: "outcome (calc_panel_temperature d a 0 S) = Inl ZeroDivisionError" if "d \<noteq> 0"
    using that by (simp add: outcome_def temperature_emissivity_zero)
  show ?thesis
    using zero_power zero_power_div zero_temp zero_temp_div power temp raises by blast
qed

theorem C1_none_at_zero_number_in_range_witness:
  "(1::real) \<noteq> 0 \<and> in_normal_range ((1::real) ^ 2)
   \<and> default_emissivity \<noteq> 0
   \<and> in_normal_range (2 * default_emissivity * STEFAN_BOLTZMANN)
   \<and> returns_number (calc_solar_array_power_generation 1 1 default_efficiency
         default_incidence_angle default_solar_constant)
   \<and> returns_number (calc_panel_temperature 1 default_absorptivity default_emissivity
         default_solar_constant)
   \<and> outcome (calc_panel_temperature 1 default_absorptivity 0 default_solar_constant)
       = Inl ZeroDivisionError"
  using C1_none_at_zero_number_in_range [where d = 1 and e = default_emissivity
      and A = 1 and eff = default_efficiency and ia = default_incidence_angle
      and S = default_solar_constant and a = default_absorptivity]
  by (simp add: default_emissivity_def in_normal_range_def STEFAN_BOLTZMANN_value)

text \<open>
  C1 as stated fails: at \<open>sun_distance = 1\<close> and \<open>emissivity = 0\<close> the second
  division raises, so no number is returned.
\<close>

theorem C1_counterexample:
  "(1::real) \<noteq> 0
   \<and> \<not> returns_number (calc_panel_temperature 1 default_absorptivity 0 default_solar_constant)"
  by (simp add: returns_number_def outcome_def temperature_emissivity_zero)

text \<open>
  C4. With \<open>sun_distance = 0\<close>, \<open>calc_solar_array_power_generation\<close> prints the
  warning and nothing else, \<open>calc_panel_temperature\<close> prints nothing, and both
  return \<^verbatim>\<open>None\<close>.
\<close>

theorem C4_warning_only_from_power:
  "events (calc_solar_array_power_generation 0 A eff ia S) = [Printed warning_message]
   \<and> events (calc_panel_temperature 0 a e S) = []
   \<and> outcome (calc_solar_array_power_generation 0 A eff ia S) = Inr PyNone
   \<and> outcome (calc_panel_temperature 0 a e S) = Inr PyNone"
  by (simp add: events_def outcome_def power_at_zero temperature_at_zero)

section \<open>Solar array power\<close>


text \<open>
  C7. \<open>calc_solar_array_power_generation\<close> at \<open>sun_distance = 1\<close>,
  \<open>effective_area = 1\<close>, \<open>efficiency = 1\<close>, \<open>incidence_angle = 0\<close>,
  \<open>solar_constant = 1366\<close> returns 1366.
\<close>

theorem C7_power_at_unit_inputs:
  "outcome (calc_solar_array_power_generation 1 1 1 0 1366) = Inr (PyFloat 1366)"
  by (simp add: outcome_def power_at_nonzero deg2rad_def)

section \<open>Panel temperature\<close>

text \<open>
  C3 (as amended). With \<open>sun_distance \<noteq> 0\<close>, \<open>emissivity \<noteq> 0\<close> and every
  intermediate result in the normal range,
  \<open>calc_panel_temperature\<close> returns \<open>q ** 0.25 * 273.15\<close> for
  \<open>q = (absorptivity * (solar_constant / sun_distance\<^sup>2)) / (2 * emissivity * sigma)\<close>
  and \<open>sigma = 5.670374419e-8\<close>: a float when \<open>q \<ge> 0\<close>, and then not the Kelvin value
  minus 273.15; the complex power of modulus \<open>\<bar>q\<bar> ** 0.25\<close> and argument \<open>pi / 4\<close>,
  times 273.15, when \<open>q < 0\<close>. Inputs with an intermediate result out of range are not
  covered.
\<close>

theorem C3_temperature_formula_in_range:
  assumes "d \<noteq> 0" and "e \<noteq> 0" and "temperature_in_range d a e S"
  shows "let sigma = 5.670374419 / 10 ^ 8;
             q = (a * (S / d ^ 2)) / (2 * e * sigma)
         in STEFAN_BOLTZMANN = sigma
            \<and> (0 \<le> q \<longrightarrow>
                 outcome (calc_panel_temperature d a e S) = Inr (PyFloat (q powr 0.25 * 273.15))
                 \<and> outcome (calc_panel_temperature d a e S)
                     \<noteq> Inr (PyFloat (q powr 0.25 - 273.15)))
            \<and> (q < 0 \<longrightarrow>
                 outcome (calc_panel_temperature d a e S) =
                   Inr (PyComplex (rcis (\<bar>q\<bar> powr 0.25) (pi * 0.25) * complex_of_real 273.15)))"
proof -
  define q where "q = (a * (S / d ^ 2)) / (2 * e * (5.670374419 / 10 ^ 8))"
  have times: "outcome (calc_panel_temperature d a e S) = Inr (PyFloat (q powr 0.25 * 273.15))"
    if "0 \<le> q"
    using that outcome_temperature_nonneg [OF assms(1,2), of a S] by (simp only: q_def)
  have not_minus: "outcome (calc_panel_temperature d a e S) \<noteq> Inr (PyFloat (q powr 0.25 - 273.15))"
    if "0 \<le> q"
  proof -
    have "0 \<le> q powr 0.25"
      by simp
    then have "q powr 0.25 * 273.15 \<noteq> q powr 0.25 - 273.15"
      by (rule times_not_minus)
    then show ?thesis
      unfolding times [OF that] by simp
  qed
  have cplx: "outcome (calc_panel_temperature d a e S) =
      Inr (PyComplex (rcis (\<bar>q\<bar> powr 0.25) (pi * 0.25) * complex_of_real 273.15))"
    if "q < 0"
    using that outcome_temperature_neg [OF assms(1,2), of a S] by (simp only: q_def)
  show ?thesis
    unfolding Let_def q_def [symmetric]
    using STEFAN_BOLTZMANN_value times not_minus cplx by blast
qed

theorem C3_temperature_formula_in_range_witness:
  "(1::real) \<noteq> 0 \<and> (- 1::real) \<noteq> 0
   \<and> temperature_in_range 1 1 1 1366 \<and> temperature_in_range 1 1 (- 1) 1366
   \<and> outcome (calc_panel_temperature 1 1 1 1366) =
       Inr (PyFloat (((1 * (1366 / 1 ^ 2)) / (2 * 1 * (5.670374419 / 10 ^ 8))) powr 0.25 * 273.15))
   \<and> outcome (calc_panel_temperature 1 1 (- 1) 1366) =
       Inr (PyComplex (rcis (\<bar>(1 * (1366 / 1 ^ 2)) / (2 * (- 1) * (5.670374419 / 10 ^ 8))\<bar> powr 0.25)
                         (pi * 0.25) * complex_of_real 273.15))"
proof -
  have r1: "temperature_in_range 1 1 1 1366"
    by (simp add: temperature_in_range_def in_normal_range_def STEFAN_BOLTZMANN_value)
  have r2: "temperature_in_range 1 1 (- 1) 1366"
    by (simp add: temperature_in_range_def in_normal_range_def STEFAN_BOLTZMANN_value)
  show ?thesis
    using r1 r2
      C3_temperature_formula_in_range [where d = 1 and e = 1 and a = 1 and S = 1366]
      C3_temperature_formula_in_range [where d = 1 and e = "- 1" and a = 1 and S = 1366]
    by (simp add: Let_def)
qed

text \<open>
  C3 as stated fails: at \<open>sun_distance = 1\<close> and \<open>emissivity = 0\<close> the call raises
  \<^verbatim>\<open>ZeroDivisionError\<close> and returns nothing.
\<close>

theorem C3_counterexample:
  "(1::real) \<noteq> 0
   \<and> outcome (calc_panel_temperature 1 default_absorptivity 0 default_solar_constant)
       = Inl ZeroDivisionError
   \<and> outcome (calc_panel_temperature 1 default_absorptivity 0 default_solar_constant)
       \<noteq> Inr (PyFloat (((default_absorptivity * (default_solar_constant / 1 ^ 2))
                          / (2 * 0 * (5.670374419 / 10 ^ 8))) powr 0.25 * 273.15))"
  by (simp add: outcome_def temperature_emissivity_zero)




section \<open>Sign of the distance\<close>

text \<open>
  C9. For \<open>d \<noteq> 0\<close> and any other parameters, each function does and returns at
  \<open>sun_distance = -d\<close> what it does and returns at \<open>sun_distance = d\<close>.
\<close>

theorem C9_even_in_distance:
  "d \<noteq> 0 \<Longrightarrow>
   calc_solar_array_power_generation (- d) A eff ia S =
     calc_solar_array_power_generation d A eff ia S
   \<and> calc_panel_temperature (- d) a e S = calc_panel_temperature d a e S"
  by (simp add: power_even temperature_even)

theorem C9_even_in_distance_witness:
  "(2::real) \<noteq> 0
   \<and> calc_solar_array_power_generation (- 2) 3 default_efficiency 60 default_solar_constant =
       calc_solar_array_power_generation 2 3 default_efficiency 60 default_solar_constant
   \<and> calc_panel_temperature (- 2) default_absorptivity default_emissivity default_solar_constant =
       calc_panel_temperature 2 default_absorptivity default_emissivity default_solar_constant"
  using C9_even_in_distance [of 2 3 default_efficiency 60 default_solar_constant
      default_absorptivity default_emissivity]
  by simp

section \<open>Results that are not floats\<close>



end
